theory Spec2Isabelle
  imports Main "HOL-Library.Char_ord" "HOL-Library.List_Lexorder"
begin

unbundle bit_operations_syntax

section \<open>Policy exclusion statistics: the parsers of \<open>policy_exclusions_stats.py\<close>\<close>

text \<open>
  The script walks a policy's XML tree, splits the text of every exclusion item on
  \<open>|\<close> and collects one record per item. Python's unbounded integers are \<open>int\<close>,
  its strings are \<open>string\<close>, and every exception the parsers can raise is a value of
  \<open>error\<close>: a parser returns \<open>Inl e\<close> where the Python raises and \<open>Inr rows\<close> where it
  returns its data frame.
\<close>

datatype error = AttributeError | IndexError | ValueError | KeyError

subsection \<open>The XML tree (\<open>xml.etree.ElementTree\<close>)\<close>

text \<open>
  An element has a tag, a text that is \<open>None\<close> when the element holds no character
  data, and its children in document order.
\<close>

datatype element = Element (tag: string) (text_of: "string option") (children: "element list")

text \<open>
  \<open>Element.iter(tag)\<close>: the element itself and everything below it, depth first in
  document order, keeping the elements whose tag is the one asked for.
\<close>

fun descendants :: "element \<Rightarrow> element list" where
  "descendants (Element t x cs) = Element t x cs # concat (map descendants cs)"

definition iter :: "element \<Rightarrow> string \<Rightarrow> element list" where
  "iter e t = filter (\<lambda>d. tag d = t) (descendants e)"

definition ns :: string where
  "ns = ''{http://www.w3.org/2000/09/xmldsig#}''"

definition exclusions_tag :: string where
  "exclusions_tag = ns @ ''exclusions''"

definition info_tag :: string where
  "info_tag = ns @ ''info''"

definition process_tag :: string where
  "process_tag = ns @ ''process''"

subsection \<open>Python built-ins used by the parsers\<close>

text \<open>\<open>str.split(sep)\<close> with a one-character separator: empty fields are kept.\<close>

fun split_from :: "char \<Rightarrow> string \<Rightarrow> string \<Rightarrow> string list" where
  "split_from sep cur [] = [cur]"
| "split_from sep cur (c # cs) =
     (if c = sep then cur # split_from sep [] cs else split_from sep (cur @ [c]) cs)"

definition split :: "string \<Rightarrow> char \<Rightarrow> string list" where
  "split s sep = split_from sep [] s"

text \<open>Indexing a list with a non-negative constant: \<open>IndexError\<close> out of range.\<close>

definition get :: "'a list \<Rightarrow> nat \<Rightarrow> error + 'a" where
  "get xs i = (if i < length xs then Inr (xs ! i) else Inl IndexError)"

text \<open>
  \<open>int(s)\<close> on a string, base ten: surrounding white space is dropped, one sign is
  allowed, then decimal digits with single underscores between them. Anything else is
  a \<open>ValueError\<close>, here \<open>None\<close>. The model reads ASCII text: the white space and digit
  characters outside ASCII that Python also accepts are not digits or spaces here.
\<close>

definition is_space :: "char \<Rightarrow> bool" where
  "is_space c = (of_char c \<in> {9, 10, 11, 12, 13, 28, 29, 30, 31, 32 :: nat})"

definition is_digit :: "char \<Rightarrow> bool" where
  "is_digit c = (48 \<le> (of_char c :: nat) \<and> (of_char c :: nat) \<le> 57)"

definition digit_val :: "char \<Rightarrow> nat" where
  "digit_val c = of_char c - 48"

definition strip :: "string \<Rightarrow> string" where
  "strip s = rev (dropWhile is_space (rev (dropWhile is_space s)))"

fun digits_from :: "nat \<Rightarrow> string \<Rightarrow> nat option" where
  "digits_from acc [] = Some acc"
| "digits_from acc [c] = (if is_digit c then Some (10 * acc + digit_val c) else None)"
| "digits_from acc (c # d # cs) =
     (if is_digit c then digits_from (10 * acc + digit_val c) (d # cs)
      else if c = CHR ''_'' \<and> is_digit d then digits_from acc (d # cs)
      else None)"

definition digits :: "string \<Rightarrow> nat option" where
  "digits s = (case s of [] \<Rightarrow> None
                | c # cs \<Rightarrow> if is_digit c then digits_from 0 (c # cs) else None)"

definition py_int :: "string \<Rightarrow> int option" where
  "py_int s =
     (case strip s of
        [] \<Rightarrow> None
      | c # cs \<Rightarrow>
          if c = CHR ''-'' then map_option (\<lambda>n. - int n) (digits cs)
          else if c = CHR ''+'' then map_option int (digits cs)
          else map_option int (digits (c # cs)))"

subsection \<open>Records\<close>

text \<open>The policy metadata the parsers read: \<open>policy['name']\<close> and \<open>policy['guid']\<close>.\<close>

record policy =
  name :: string
  guid :: string

text \<open>One row of the path-exclusion frame, with the keys of \<open>e_item\<close>.\<close>

record path_exclusion =
  p_name :: string
  p_guid :: string
  e_class :: string
  e_type :: string
  e_value :: string

text \<open>
  One row of the process-exclusion frame. The fields are the keys of \<open>e_item\<close> in
  \<open>parse_process_exclusions\<close>, with \<open>_\<close> for the blanks.
\<close>

record process_exclusion =
  Policy_Name :: string
  Policy_GUID :: string
  Polcy_Class :: string
  Exclusion_Version :: string
  Exclusion_Auth_Type :: string
  Exclusion_Hash :: string
  Exclusion_Path :: string
  Exclusion_Flag :: int
  File_Scan_Child :: bool
  Scan_Files_Written :: bool
  System_Process_Protection :: bool
  System_Process_Protection_Child :: bool
  Malicious_Activity :: bool
  Malicious_Activity_Child :: bool
  Self_Protect :: bool
  Self_Protect_Child :: bool

subsection \<open>\<open>AMP4EP.parse_path_exclusions\<close>\<close>

text \<open>
  The body of the innermost loop: \<open>xml_item.text.split("|")\<close> raises
  \<open>AttributeError\<close> when the item has no text, \<open>exclusion[1]\<close> and \<open>exclusion[4]\<close>
  raise \<open>IndexError\<close> when the payload is too short. Nothing catches either.
\<close>

definition path_item :: "policy \<Rightarrow> element \<Rightarrow> error + path_exclusion" where
  "path_item pol xml_item =
     (case text_of xml_item of
        None \<Rightarrow> Inl AttributeError
      | Some txt \<Rightarrow>
          (let exclusion = split txt CHR ''|'' in
           case get exclusion 1 of
             Inl e \<Rightarrow> Inl e
           | Inr ty \<Rightarrow>
               (case get exclusion 4 of
                  Inl e \<Rightarrow> Inl e
                | Inr v \<Rightarrow>
                    Inr \<lparr>p_name = name pol, p_guid = guid pol, e_class = ''path'',
                         e_type = ty, e_value = v\<rparr>)))"

text \<open>The three nested loops; \<open>e_paths\<close> is the frame built so far.\<close>

fun path_items :: "policy \<Rightarrow> element list \<Rightarrow> path_exclusion list \<Rightarrow> error + path_exclusion list" where
  "path_items pol [] e_paths = Inr e_paths"
| "path_items pol (xml_item # rest) e_paths =
     (case path_item pol xml_item of
        Inl e \<Rightarrow> Inl e
      | Inr e_item \<Rightarrow> path_items pol rest (e_paths @ [e_item]))"

fun path_infos :: "policy \<Rightarrow> element list \<Rightarrow> path_exclusion list \<Rightarrow> error + path_exclusion list" where
  "path_infos pol [] e_paths = Inr e_paths"
| "path_infos pol (xml_path # rest) e_paths =
     (case path_items pol (children xml_path) e_paths of
        Inl e \<Rightarrow> Inl e
      | Inr e_paths' \<Rightarrow> path_infos pol rest e_paths')"

fun path_exclusions :: "policy \<Rightarrow> element list \<Rightarrow> path_exclusion list \<Rightarrow> error + path_exclusion list" where
  "path_exclusions pol [] e_paths = Inr e_paths"
| "path_exclusions pol (xml_exclusion # rest) e_paths =
     (case path_infos pol (iter xml_exclusion info_tag) e_paths of
        Inl e \<Rightarrow> Inl e
      | Inr e_paths' \<Rightarrow> path_exclusions pol rest e_paths')"

definition parse_path_exclusions :: "policy \<Rightarrow> element \<Rightarrow> error + path_exclusion list" where
  "parse_path_exclusions pol xml = path_exclusions pol (iter xml exclusions_tag) []"

subsection \<open>\<open>AMP4EP.parse_process_exclusions\<close>\<close>

text \<open>
  The body of the innermost loop. \<open>int(exclusion[4])\<close> comes first: \<open>IndexError\<close> on
  a payload of fewer than five fields, \<open>ValueError\<close> when the fifth is no integer.
  Each capability is \<open>bool(e_flag & (0b1 << i))\<close>.
\<close>

definition process_item :: "policy \<Rightarrow> element \<Rightarrow> error + process_exclusion" where
  "process_item pol xml_item =
     (case text_of xml_item of
        None \<Rightarrow> Inl AttributeError
      | Some txt \<Rightarrow>
          (let exclusion = split txt CHR ''|'' in
           case get exclusion 4 of
             Inl e \<Rightarrow> Inl e
           | Inr f \<Rightarrow>
               (case py_int f of
                  None \<Rightarrow> Inl ValueError
                | Some e_flag \<Rightarrow>
                    Inr \<lparr>Policy_Name = name pol,
                         Policy_GUID = guid pol,
                         Polcy_Class = ''process'',
                         Exclusion_Version = exclusion ! 0,
                         Exclusion_Auth_Type = exclusion ! 1,
                         Exclusion_Hash = exclusion ! 2,
                         Exclusion_Path = exclusion ! 3,
                         Exclusion_Flag = e_flag,
                         File_Scan_Child = (e_flag AND push_bit 0 1 \<noteq> 0),
                         Scan_Files_Written = (e_flag AND push_bit 1 1 \<noteq> 0),
                         System_Process_Protection = (e_flag AND push_bit 2 1 \<noteq> 0),
                         System_Process_Protection_Child = (e_flag AND push_bit 3 1 \<noteq> 0),
                         Malicious_Activity = (e_flag AND push_bit 4 1 \<noteq> 0),
                         Malicious_Activity_Child = (e_flag AND push_bit 5 1 \<noteq> 0),
                         Self_Protect = (e_flag AND push_bit 6 1 \<noteq> 0),
                         Self_Protect_Child = (e_flag AND push_bit 7 1 \<noteq> 0)\<rparr>)))"

fun process_items :: "policy \<Rightarrow> element list \<Rightarrow> process_exclusion list \<Rightarrow> error + process_exclusion list" where
  "process_items pol [] e_processes = Inr e_processes"
| "process_items pol (xml_item # rest) e_processes =
     (case process_item pol xml_item of
        Inl e \<Rightarrow> Inl e
      | Inr e_item \<Rightarrow> process_items pol rest (e_processes @ [e_item]))"

fun process_elems :: "policy \<Rightarrow> element list \<Rightarrow> process_exclusion list \<Rightarrow> error + process_exclusion list" where
  "process_elems pol [] e_processes = Inr e_processes"
| "process_elems pol (xml_process # rest) e_processes =
     (case process_items pol (children xml_process) e_processes of
        Inl e \<Rightarrow> Inl e
      | Inr e_processes' \<Rightarrow> process_elems pol rest e_processes')"

fun process_exclusions :: "policy \<Rightarrow> element list \<Rightarrow> process_exclusion list \<Rightarrow> error + process_exclusion list" where
  "process_exclusions pol [] e_processes = Inr e_processes"
| "process_exclusions pol (xml_exclusion # rest) e_processes =
     (case process_elems pol (iter xml_exclusion process_tag) e_processes of
        Inl e \<Rightarrow> Inl e
      | Inr e_processes' \<Rightarrow> process_exclusions pol rest e_processes')"

definition parse_process_exclusions :: "policy \<Rightarrow> element \<Rightarrow> error + process_exclusion list" where
  "parse_process_exclusions pol xml = process_exclusions pol (iter xml exclusions_tag) []"

subsection \<open>The frames handed to the report\<close>

text \<open>
  \<open>main\<close> appends every policy's rows to two frames. The path frame is its list of
  rows. The process frame is its rows and the column \<open>File Scan\<close>, which no parser
  writes: it is absent (\<open>None\<close>) until \<open>exclusion_report\<close> assigns it. A frame built
  from no rows at all is \<open>pd.DataFrame([])\<close>, which has no columns.
\<close>

record process_frame =
  records :: "process_exclusion list"
  File_Scan :: "bool list option"

subsection \<open>The pandas operations of \<open>exclusion_report\<close>\<close>

text \<open>
  A count table: the column labels and one labelled line of counts per index entry.
\<close>

record table =
  columns :: "string list"
  body :: "(string \<times> nat list) list"

text \<open>
  \<open>pd.crosstab(index, columns, margins=True, margins_name=m)\<close>: the distinct index and
  column values in sorted order, the number of positions holding each pair, and the
  margins: a last column with each line's count and a last line with each column's.
  pandas refuses (\<open>ValueError\<close>) a margin name that is already an index or column value.
\<close>

definition crosstab :: "string list \<Rightarrow> string list \<Rightarrow> string \<Rightarrow> error + table" where
  "crosstab idx cols margins_name =
     (let rs = sort (remdups idx); cs = sort (remdups cols) in
      if margins_name \<in> set rs \<or> margins_name \<in> set cs then Inl ValueError
      else Inr \<lparr>columns = cs @ [margins_name],
                body = map (\<lambda>r. (r, map (\<lambda>c. count_list (zip idx cols) (r, c)) cs
                                      @ [count_list idx r])) rs
                       @ [(margins_name, map (\<lambda>c. count_list cols c) cs @ [length idx])]\<rparr>)"

text \<open>\<open>DataFrame.rename(columns=d)\<close>: a label that is a key of \<open>d\<close> is replaced.\<close>

definition rename :: "(string \<times> string) list \<Rightarrow> table \<Rightarrow> table" where
  "rename d t = t\<lparr>columns := map (\<lambda>c. case map_of d c of None \<Rightarrow> c | Some l \<Rightarrow> l) (columns t)\<rparr>"

text \<open>
  \<open>t.drop(t.index[len(t) - 1])\<close>: every line carrying the label of the last line goes.
\<close>

definition drop_last_label :: "table \<Rightarrow> error + table" where
  "drop_last_label t =
     (case rev (body t) of
        [] \<Rightarrow> Inl IndexError
      | l # _ \<Rightarrow> Inr (t\<lparr>body := filter (\<lambda>r. fst r \<noteq> fst l) (body t)\<rparr>))"

text \<open>\<open>np.sum\<close> of a column of booleans.\<close>

definition np_sum :: "bool list \<Rightarrow> nat" where
  "np_sum bs = sum_list (map of_bool bs)"

text \<open>
  One line of the pivot table, after the renaming of \<open>Policy GUID\<close> to
  \<open>Total Exclusions\<close> and in the column order the report selects.
\<close>

record pivot_row =
  Policy :: string
  sum_File_Scan :: nat
  sum_File_Scan_Child :: nat
  sum_System_Process_Protection :: nat
  sum_System_Process_Protection_Child :: nat
  sum_Malicious_Activity :: nat
  sum_Malicious_Activity_Child :: nat
  Total_Exclusions :: nat

text \<open>
  \<open>pd.pivot_table(process, values=..., index='Policy Name', aggfunc=...)\<close>: one line per
  distinct policy name, in sorted order; \<open>len\<close> of the group for \<open>Policy GUID\<close> and
  \<open>np.sum\<close> of the group for each boolean column. The rows come with their
  \<open>File Scan\<close> value.
\<close>

definition pivot_table :: "(process_exclusion \<times> bool) list \<Rightarrow> pivot_row list" where
  "pivot_table rows =
     map (\<lambda>n. let grp = filter (\<lambda>r. Policy_Name (fst r) = n) rows in
              \<lparr>Policy = n,
               sum_File_Scan = np_sum (map snd grp),
               sum_File_Scan_Child = np_sum (map (File_Scan_Child \<circ> fst) grp),
               sum_System_Process_Protection = np_sum (map (System_Process_Protection \<circ> fst) grp),
               sum_System_Process_Protection_Child =
                 np_sum (map (System_Process_Protection_Child \<circ> fst) grp),
               sum_Malicious_Activity = np_sum (map (Malicious_Activity \<circ> fst) grp),
               sum_Malicious_Activity_Child = np_sum (map (Malicious_Activity_Child \<circ> fst) grp),
               Total_Exclusions = length grp\<rparr>)
         (sort (remdups (map (Policy_Name \<circ> fst) rows)))"

subsection \<open>\<open>AMP4EP.exclusion_report\<close>\<close>

text \<open>
  What the report computes before it writes and prints: the path table, the process
  pivot, and the two advisory lists of policy name and total.
\<close>

record report =
  path_exc :: table
  pvt_process :: "pivot_row list"
  caution_list :: "(string \<times> nat) list"
  warning_list :: "(string \<times> nat) list"

text \<open>The lambda of line 311: \<open>x in range(0, 3)\<close>.\<close>

definition in_file_scan_range :: "int \<Rightarrow> bool" where
  "in_file_scan_range x = (0 \<le> x \<and> x < 3)"

definition path_summary :: "path_exclusion list \<Rightarrow> error + table" where
  "path_summary path =
     (if path = [] then Inl AttributeError
      else case crosstab (map p_name path) (map e_type path) ''Total Exclusions'' of
             Inl e \<Rightarrow> Inl e
           | Inr t \<Rightarrow>
               drop_last_label
                 (rename [(''1'', ''Threat''), (''2'', ''Path''), (''3'', ''File Extension''),
                          (''4'', ''File Name''), (''5'', ''Process''), (''6'', ''Wildcard'')] t))"

text \<open>The two loops over \<open>pvt_process.iterrows()\<close>.\<close>

definition caution_rows :: "pivot_row list \<Rightarrow> (string \<times> nat) list" where
  "caution_rows pvt =
     map (\<lambda>row. (Policy row, Total_Exclusions row))
       (filter (\<lambda>row. 90 \<le> Total_Exclusions row \<and> Total_Exclusions row < 101) pvt)"

definition warning_rows :: "pivot_row list \<Rightarrow> (string \<times> nat) list" where
  "warning_rows pvt =
     map (\<lambda>row. (Policy row, Total_Exclusions row))
       (filter (\<lambda>row. Total_Exclusions row > 100) pvt)"

text \<open>
  The report takes the two frames and returns them as they are after the call, with
  what it computed. \<open>path.p_name\<close> raises \<open>AttributeError\<close> and
  \<open>process['Exclusion Flag']\<close> raises \<open>KeyError\<close> on a frame without columns; both come
  before the first write. The assignment \<open>process['File Scan'] = ...\<close> writes the
  column into the caller's frame. Writing the files and printing are left out.
\<close>

definition exclusion_report ::
  "path_exclusion list \<Rightarrow> process_frame \<Rightarrow> error + (path_exclusion list \<times> process_frame \<times> report)" where
  "exclusion_report path process =
     (case path_summary path of
        Inl e \<Rightarrow> Inl e
      | Inr path_exc' \<Rightarrow>
          if records process = [] then Inl KeyError
          else
            (let col = map (\<lambda>r. in_file_scan_range (Exclusion_Flag r)) (records process);
                 process' = process\<lparr>File_Scan := Some col\<rparr>;
                 pvt = pivot_table (zip (records process') col)
             in Inr (path, process',
                     \<lparr>path_exc = path_exc', pvt_process = pvt,
                      caution_list = caution_rows pvt, warning_list = warning_rows pvt\<rparr>)))"

subsection \<open>\<open>main\<close>: collecting the frames\<close>

text \<open>
  \<open>main\<close> parses each fetched policy in the order the fetches complete and appends its
  rows to the two frames; an exception of a parser leaves through \<open>result()\<close> and ends
  the run. The process frame it hands to the report has no \<open>File Scan\<close> column.
\<close>

fun collect ::
  "(policy \<times> element) list \<Rightarrow> path_exclusion list \<Rightarrow> process_exclusion list
   \<Rightarrow> error + (path_exclusion list \<times> process_frame)" where
  "collect [] df_paths df_processes =
     Inr (df_paths, \<lparr>records = df_processes, File_Scan = None\<rparr>)"
| "collect ((pol, policy_xml) # rest) df_paths df_processes =
     (case parse_path_exclusions pol policy_xml of
        Inl e \<Rightarrow> Inl e
      | Inr p_paths \<Rightarrow>
          (case parse_process_exclusions pol policy_xml of
             Inl e \<Rightarrow> Inl e
           | Inr p_processes \<Rightarrow> collect rest (df_paths @ p_paths) (df_processes @ p_processes)))"

subsection \<open>Example policies\<close>

text \<open>
  A policy document as the service sends it: one \<open>exclusions\<close> element holding an
  \<open>info\<close> element with the path items and a \<open>process\<close> element with the process items.
\<close>

definition item :: "string \<Rightarrow> element" where
  "item payload = Element (ns @ ''item'') (Some payload) []"

definition policy_doc :: "string list \<Rightarrow> string list \<Rightarrow> element" where
  "policy_doc paths procs =
     Element (ns @ ''policy'') None
       [Element exclusions_tag None
          [Element info_tag None (map item paths), Element process_tag None (map item procs)]]"

definition policy_A :: policy where
  "policy_A = \<lparr>name = ''A'', guid = ''guid-A''\<rparr>"

definition policy_B :: policy where
  "policy_B = \<lparr>name = ''B'', guid = ''guid-B''\<rparr>"

definition policy_C :: policy where
  "policy_C = \<lparr>name = ''C'', guid = ''guid-C''\<rparr>"

text \<open>The payloads of the specification's examples; \<open>CHR 0x5C\<close> is the backslash.\<close>

definition foo_payload :: string where
  "foo_payload = ''1|2|x|y|C:'' @ CHR 0x5C # ''foo''"

definition baz_payload :: string where
  "baz_payload = ''1|0|abcd|C:'' @ CHR 0x5C # ''bar'' @ CHR 0x5C # ''baz.exe|7''"


text \<open>A document with an \<open>exclusions\<close> element whose \<open>info\<close> and \<open>process\<close> are empty.\<close>

definition empty_doc :: element where
  "empty_doc = policy_doc [] []"

text \<open>A document without any \<open>exclusions\<close> element.\<close>

definition bare_doc :: element where
  "bare_doc = Element (ns @ ''policy'') None [Element (ns @ ''name'') (Some ''A'') []]"

text \<open>Two small policies, and the frames \<open>main\<close> collects from them.\<close>

definition small_policies :: "(policy \<times> element) list" where
  "small_policies =
     [(policy_B, policy_doc [foo_payload] [''1|0|abcd|p|1'']),
      (policy_A, policy_doc [foo_payload, ''1|3|x|y|.tmp''] [baz_payload, ''1|0|abcd|q|2''])]"

text \<open>The frames \<open>main\<close> collects from the small policies, and their report.\<close>

definition small_frames :: "path_exclusion list \<times> process_frame" where
  "small_frames =
     (case collect small_policies [] [] of
        Inr frames \<Rightarrow> frames
      | Inl e \<Rightarrow> ([], \<lparr>records = [], File_Scan = None\<rparr>))"

definition small_report :: report where
  "small_report =
     \<lparr>path_exc = \<lparr>columns = [''Path'', ''File Extension'', ''Total Exclusions''],
                   body = [(''A'', [1, 1, 2]), (''B'', [1, 0, 1])]\<rparr>,
      pvt_process =
        [\<lparr>Policy = ''A'', sum_File_Scan = 1, sum_File_Scan_Child = 1,
          sum_System_Process_Protection = 1, sum_System_Process_Protection_Child = 0,
          sum_Malicious_Activity = 0, sum_Malicious_Activity_Child = 0, Total_Exclusions = 2\<rparr>,
         \<lparr>Policy = ''B'', sum_File_Scan = 1, sum_File_Scan_Child = 1,
          sum_System_Process_Protection = 0, sum_System_Process_Protection_Child = 0,
          sum_Malicious_Activity = 0, sum_Malicious_Activity_Child = 0, Total_Exclusions = 1\<rparr>],
      caution_list = [], warning_list = []\<rparr>"

text \<open>
  Three policies with 95, 105 and 50 process exclusions, and the frames collected from
  them.
\<close>

definition threshold_policies :: "(policy \<times> element) list" where
  "threshold_policies =
     [(policy_A, policy_doc [foo_payload] (replicate 95 baz_payload)),
      (policy_B, policy_doc [foo_payload] (replicate 105 baz_payload)),
      (policy_C, policy_doc [foo_payload] (replicate 50 baz_payload))]"

definition threshold_frames :: "path_exclusion list \<times> process_frame" where
  "threshold_frames =
     (case collect threshold_policies [] [] of
        Inr frames \<Rightarrow> frames
      | Inl e \<Rightarrow> ([], \<lparr>records = [], File_Scan = None\<rparr>))"

section \<open>Properties of the parsers\<close>












lemma path_infos_no_items:
  "\<forall>i\<in>set infos. children i = [] \<Longrightarrow> path_infos pol infos acc = Inr acc"
  by (induction infos arbitrary: acc) auto

lemma path_exclusions_no_items:
  "\<forall>xe\<in>set xs. \<forall>i\<in>set (iter xe info_tag). children i = []
   \<Longrightarrow> path_exclusions pol xs acc = Inr acc"
  by (induction xs arbitrary: acc) (auto simp: path_infos_no_items)

lemma process_elems_no_items:
  "\<forall>i\<in>set ps. children i = [] \<Longrightarrow> process_elems pol ps acc = Inr acc"
  by (induction ps arbitrary: acc) auto

lemma process_exclusions_no_items:
  "\<forall>xe\<in>set xs. \<forall>i\<in>set (iter xe process_tag). children i = []
   \<Longrightarrow> process_exclusions pol xs acc = Inr acc"
  by (induction xs arbitrary: acc) (auto simp: process_elems_no_items)


lemma iter_policy_doc_exclusions:
  "iter (policy_doc paths procs) exclusions_tag
   = [Element exclusions_tag None
        [Element info_tag None (map item paths), Element process_tag None (map item procs)]]"
  by (simp add: iter_def policy_doc_def item_def exclusions_tag_def info_tag_def process_tag_def
      ns_def o_def)

lemma iter_exclusions_info:
  "iter (Element exclusions_tag None
           [Element info_tag None (map item paths), Element process_tag None (map item procs)])
        info_tag
   = [Element info_tag None (map item paths)]"
  by (simp add: iter_def item_def exclusions_tag_def info_tag_def process_tag_def ns_def o_def)

lemma iter_exclusions_process:
  "iter (Element exclusions_tag None
           [Element info_tag None (map item paths), Element process_tag None (map item procs)])
        process_tag
   = [Element process_tag None (map item procs)]"
  by (simp add: iter_def item_def exclusions_tag_def info_tag_def process_tag_def ns_def o_def)

lemma split_foo_payload:
  "split foo_payload CHR ''|'' = [''1'', ''2'', ''x'', ''y'', ''C:'' @ CHR 0x5C # ''foo'']"
  by (simp add: foo_payload_def split_def)

lemma split_baz_payload:
  "split baz_payload CHR ''|''
   = [''1'', ''0'', ''abcd'', ''C:'' @ CHR 0x5C # ''bar'' @ CHR 0x5C # ''baz.exe'', ''7'']"
  by (simp add: baz_payload_def split_def)

lemma py_int_examples:
  "py_int ''7'' = Some 7" "py_int ''1'' = Some 1" "py_int ''x'' = None"
  by (simp_all add: py_int_def strip_def is_space_def digits_def is_digit_def digit_val_def)









text \<open>
  C7: a document without \<open>exclusions\<close> elements, or whose \<open>info\<close> and \<open>process\<close>
  elements hold no items, parses to empty frames and raises nothing.
\<close>

theorem no_entries_empty:
  "(iter xml exclusions_tag = []
      \<longrightarrow> parse_path_exclusions pol xml = Inr [] \<and> parse_process_exclusions pol xml = Inr [])
   \<and> ((\<forall>xe\<in>set (iter xml exclusions_tag). \<forall>i\<in>set (iter xe info_tag). children i = [])
      \<longrightarrow> parse_path_exclusions pol xml = Inr [])
   \<and> ((\<forall>xe\<in>set (iter xml exclusions_tag). \<forall>i\<in>set (iter xe process_tag). children i = [])
      \<longrightarrow> parse_process_exclusions pol xml = Inr [])"
  by (simp add: parse_path_exclusions_def parse_process_exclusions_def
      path_exclusions_no_items process_exclusions_no_items)

theorem no_entries_empty_witness:
  "iter bare_doc exclusions_tag = []
   \<and> parse_path_exclusions policy_A bare_doc = Inr []
   \<and> parse_process_exclusions policy_A bare_doc = Inr []
   \<and> iter empty_doc exclusions_tag
       = [Element exclusions_tag None [Element info_tag None [], Element process_tag None []]]
   \<and> parse_path_exclusions policy_A empty_doc = Inr []
   \<and> parse_process_exclusions policy_A empty_doc = Inr []"
proof -
  have bare: "iter bare_doc exclusions_tag = []"
    by (simp add: iter_def bare_doc_def exclusions_tag_def ns_def)
  have ex: "iter empty_doc exclusions_tag
            = [Element exclusions_tag None [Element info_tag None [], Element process_tag None []]]"
    using iter_policy_doc_exclusions [of "[]" "[]"] by (simp add: empty_doc_def)
  have hi: "\<forall>xe\<in>set (iter empty_doc exclusions_tag). \<forall>i\<in>set (iter xe info_tag). children i = []"
    using iter_exclusions_info [of "[]" "[]"] by (simp add: ex)
  have hp: "\<forall>xe\<in>set (iter empty_doc exclusions_tag). \<forall>i\<in>set (iter xe process_tag). children i = []"
    using iter_exclusions_process [of "[]" "[]"] by (simp add: ex)
  from no_entries_empty [of bare_doc policy_A] no_entries_empty [of empty_doc policy_A]
    bare hi hp ex
  show ?thesis by simp
qed

section \<open>Properties of the report\<close>

lemma path_summary_body:
  assumes "path_summary path = Inr t"
  shows "body t =
           map (\<lambda>r. (r, map (\<lambda>c. count_list (zip (map p_name path) (map e_type path)) (r, c))
                          (sort (remdups (map e_type path)))
                        @ [count_list (map p_name path) r]))
             (sort (remdups (map p_name path)))"
proof -
  let ?m = "''Total Exclusions''"
  from assms have nm: "?m \<notin> set (sort (remdups (map p_name path)))"
    by (auto simp: path_summary_def crosstab_def Let_def split: if_splits sum.splits)
  have flt: "filter (\<lambda>r. fst r \<noteq> ?m) (map (\<lambda>r. (r, f r)) rs) = map (\<lambda>r. (r, f r)) rs"
    if "?m \<notin> set rs" for rs :: "string list" and f :: "string \<Rightarrow> nat list"
    using that by (induction rs) auto
  from assms nm show ?thesis
    by (auto simp: path_summary_def crosstab_def Let_def drop_last_label_def rename_def flt
        split: if_splits sum.splits)
qed

lemma sum_indicator:
  "distinct cs \<Longrightarrow> sum_list (map (\<lambda>c. if b = c then 1 else 0) cs) = (if b \<in> set cs then 1 else (0::nat))"
  by (induction cs) auto

lemma sum_count_pairs:
  "distinct cs \<Longrightarrow> snd ` set ps \<subseteq> set cs
   \<Longrightarrow> sum_list (map (\<lambda>c. count_list ps (r, c)) cs) = count_list (map fst ps) r"
proof (induction ps)
  case Nil
  then show ?case by simp
next
  case (Cons p ps)
  obtain a b where p: "p = (a, b)" by (cases p)
  from Cons.prems have b: "b \<in> set cs" and sub: "snd ` set ps \<subseteq> set cs"
    by (auto simp: p)
  have "sum_list (map (\<lambda>c. count_list (p # ps) (r, c)) cs)
        = sum_list (map (\<lambda>c. count_list ps (r, c) + (if a = r then (if b = c then 1 else 0) else 0)) cs)"
    by (rule arg_cong [where f = sum_list]) (auto simp: p)
  also have "\<dots> = sum_list (map (\<lambda>c. count_list ps (r, c)) cs)
                  + sum_list (map (\<lambda>c. if a = r then (if b = c then 1 else 0) else 0) cs)"
    by (simp add: sum_list_addf)
  also have "sum_list (map (\<lambda>c. if a = r then (if b = c then 1 else 0) else (0::nat)) cs)
             = (if a = r then 1 else 0)"
    using sum_indicator [OF Cons.prems(1), of b] b by (cases "a = r") auto
  finally show ?case
    using Cons.IH [OF Cons.prems(1) sub] by (simp add: p)
qed

lemma count_list_map_filter:
  "count_list (map f xs) v = length (filter (\<lambda>x. f x = v) xs)"
  by (induction xs) auto

lemma np_sum_group:
  "np_sum (map snd (filter (\<lambda>r. P (fst r)) (zip xs (map f xs))))
   = length (filter (\<lambda>x. P x \<and> f x) xs)"
  by (induction xs) (auto simp: np_sum_def)

lemma length_group:
  "length (filter (\<lambda>r. P (fst r)) (zip xs (map f xs))) = length (filter P xs)"
  by (induction xs) auto

lemma pivot_row_unique:
  "r1 \<in> set (pivot_table rows) \<Longrightarrow> r2 \<in> set (pivot_table rows) \<Longrightarrow> Policy r1 = Policy r2
   \<Longrightarrow> r1 = r2"
  by (auto simp: pivot_table_def Let_def)

lemma report_Inr:
  assumes "exclusion_report path process = Inr (path', process', rep)"
  shows "path' = path"
    and "process' = process\<lparr>File_Scan := Some (map (\<lambda>r. in_file_scan_range (Exclusion_Flag r)) (records process))\<rparr>"
    and "path_summary path = Inr (path_exc rep)"
    and "pvt_process rep = pivot_table (zip (records process) (map (\<lambda>r. in_file_scan_range (Exclusion_Flag r)) (records process)))"
    and "caution_list rep = caution_rows (pvt_process rep)"
    and "warning_list rep = warning_rows (pvt_process rep)"
    and "path \<noteq> []" and "records process \<noteq> []"
  using assms
  by (auto simp: exclusion_report_def Let_def path_summary_def split: sum.splits if_splits)

lemma path_summary_columns:
  assumes "path_summary path = Inr t"
  shows "last (columns t) = ''Total Exclusions''"
    and "length (columns t) = Suc (length (sort (remdups (map e_type path))))"
  using assms
  by (auto simp: path_summary_def crosstab_def Let_def drop_last_label_def rename_def
      split: if_splits sum.splits)

lemma caution_names:
  "n \<in> fst ` set (caution_rows pvt)
   \<longleftrightarrow> (\<exists>row\<in>set pvt. Policy row = n \<and> 90 \<le> Total_Exclusions row \<and> Total_Exclusions row \<le> 100)"
  by (auto simp: caution_rows_def image_iff)

lemma warning_names:
  "n \<in> fst ` set (warning_rows pvt)
   \<longleftrightarrow> (\<exists>row\<in>set pvt. Policy row = n \<and> 100 < Total_Exclusions row)"
  by (auto simp: warning_rows_def image_iff)

lemma pivot_totals:
  assumes "row \<in> set (pivot_table (zip xs (map f xs)))"
  shows "Total_Exclusions row = length (filter (\<lambda>r. Policy_Name r = Policy row) xs)"
  using assms
  by (auto simp: pivot_table_def Let_def length_group [where P = "\<lambda>r. Policy_Name r = n" for n])

lemma pivot_index:
  "map Policy (pivot_table (zip xs (map f xs))) = sort (remdups (map Policy_Name xs))"
proof -
  have "map (Policy_Name \<circ> fst) (zip xs (map f xs)) = map Policy_Name xs"
    by (induction xs) auto
  then show ?thesis
    by (simp add: pivot_table_def Let_def o_def)
qed

lemma exclusion_report_returns:
  assumes "path \<noteq> []" and "records process \<noteq> []"
    and "''Total Exclusions'' \<notin> p_name ` set path" and "''Total Exclusions'' \<notin> e_type ` set path"
  shows "\<exists>rep. exclusion_report path process
           = Inr (path, process\<lparr>File_Scan := Some (map (\<lambda>r. in_file_scan_range (Exclusion_Flag r)) (records process))\<rparr>, rep)"
  using assms
  by (auto simp: exclusion_report_def path_summary_def crosstab_def drop_last_label_def
      rename_def Let_def split: sum.splits)


lemma small_report_eval:
  "exclusion_report (fst small_frames) (snd small_frames)
   = Inr (fst small_frames, (snd small_frames)\<lparr>File_Scan := Some [True, False, True]\<rparr>,
          small_report)"
  by code_simp

lemma small_frames_records:
  "map (\<lambda>r. (Policy_Name r, Exclusion_Flag r)) (records (snd small_frames))
   = [(''B'', 1), (''A'', 7), (''A'', 2)]"
  "map (\<lambda>r. (p_name r, e_type r)) (fst small_frames) = [(''B'', ''2''), (''A'', ''2''), (''A'', ''3'')]"
  "File_Scan (snd small_frames) = None"
  by code_simp+

lemma process_items_replicate:
  "process_item pol x = Inr r \<Longrightarrow> process_items pol (replicate n x) acc = Inr (acc @ replicate n r)"
  by (induction n arbitrary: acc) (simp_all add: replicate_app_Cons_same)

lemma process_item_name:
  "process_item pol x = Inr r \<Longrightarrow> Policy_Name r = name pol"
  by (auto simp: process_item_def Let_def split: option.splits sum.splits)

lemma parse_process_replicate:
  assumes "process_item pol (item p) = Inr r"
  shows "parse_process_exclusions pol (policy_doc paths (replicate n p)) = Inr (replicate n r)"
  unfolding parse_process_exclusions_def iter_policy_doc_exclusions process_exclusions.simps
    iter_exclusions_process
  by (simp add: process_items_replicate [OF assms])

lemma parse_path_foo:
  "parse_path_exclusions pol (policy_doc [foo_payload] procs)
   = Inr [\<lparr>p_name = name pol, p_guid = guid pol, e_class = ''path'', e_type = ''2'',
            e_value = ''C:'' @ CHR 0x5C # ''foo''\<rparr>]"
  unfolding parse_path_exclusions_def iter_policy_doc_exclusions path_exclusions.simps
    iter_exclusions_info
  by (simp add: path_item_def item_def split_foo_payload get_def)

lemma process_item_baz:
  "\<exists>r. process_item pol (item baz_payload) = Inr r"
  by (simp add: process_item_def item_def split_baz_payload get_def py_int_examples)

lemma threshold_frames_eq:
  "\<exists>pth rA rB rC.
     threshold_frames
       = (pth, \<lparr>records = replicate 95 rA @ replicate 105 rB @ replicate 50 rC, File_Scan = None\<rparr>)
     \<and> Policy_Name rA = ''A'' \<and> Policy_Name rB = ''B'' \<and> Policy_Name rC = ''C''
     \<and> pth \<noteq> [] \<and> ''Total Exclusions'' \<notin> p_name ` set pth
     \<and> ''Total Exclusions'' \<notin> e_type ` set pth"
proof -
  obtain rA where rA: "process_item policy_A (item baz_payload) = Inr rA"
    using process_item_baz by blast
  obtain rB where rB: "process_item policy_B (item baz_payload) = Inr rB"
    using process_item_baz by blast
  obtain rC where rC: "process_item policy_C (item baz_payload) = Inr rC"
    using process_item_baz by blast
  have names: "Policy_Name rA = ''A''" "Policy_Name rB = ''B''" "Policy_Name rC = ''C''"
    using process_item_name [OF rA] process_item_name [OF rB] process_item_name [OF rC]
    by (simp_all add: policy_A_def policy_B_def policy_C_def)
  have fields: "name policy_A = ''A''" "guid policy_A = ''guid-A''" "name policy_B = ''B''"
    "guid policy_B = ''guid-B''" "name policy_C = ''C''" "guid policy_C = ''guid-C''"
    by (simp_all add: policy_A_def policy_B_def policy_C_def)
  have "collect threshold_policies [] []
        = Inr ([\<lparr>p_name = ''A'', p_guid = ''guid-A'', e_class = ''path'', e_type = ''2'',
                  e_value = ''C:'' @ CHR 0x5C # ''foo''\<rparr>,
                \<lparr>p_name = ''B'', p_guid = ''guid-B'', e_class = ''path'', e_type = ''2'',
                  e_value = ''C:'' @ CHR 0x5C # ''foo''\<rparr>,
                \<lparr>p_name = ''C'', p_guid = ''guid-C'', e_class = ''path'', e_type = ''2'',
                  e_value = ''C:'' @ CHR 0x5C # ''foo''\<rparr>],
               \<lparr>records = replicate 95 rA @ replicate 105 rB @ replicate 50 rC,
                File_Scan = None\<rparr>)"
    unfolding threshold_policies_def collect.simps
    by (simp add: parse_path_foo parse_process_replicate [OF rA] parse_process_replicate [OF rB]
        parse_process_replicate [OF rC] fields)
  then show ?thesis
    using names unfolding threshold_frames_def by auto
qed

lemma sorted_names: "sort (remdups xs) = [''A'', ''B'', ''C'']" if "set xs = {''A'', ''B'', ''C''}"
proof (rule sorted_distinct_set_unique)
  show "sorted [''A'', ''B'', ''C'']" by code_simp
  show "distinct [''A'', ''B'', ''C'']" by simp
  show "set (sort (remdups xs)) = set [''A'', ''B'', ''C'']" using that by simp
qed simp_all

lemma threshold_example:
  "\<exists>path' process' rep rowA rowB rowC.
     exclusion_report (fst threshold_frames) (snd threshold_frames) = Inr (path', process', rep)
     \<and> pvt_process rep = [rowA, rowB, rowC]
     \<and> Policy rowA = ''A'' \<and> Total_Exclusions rowA = 95
     \<and> Policy rowB = ''B'' \<and> Total_Exclusions rowB = 105
     \<and> Policy rowC = ''C'' \<and> Total_Exclusions rowC = 50"
proof -
  obtain pth rA rB rC where fr: "threshold_frames
       = (pth, \<lparr>records = replicate 95 rA @ replicate 105 rB @ replicate 50 rC, File_Scan = None\<rparr>)"
    and names: "Policy_Name rA = ''A''" "Policy_Name rB = ''B''" "Policy_Name rC = ''C''"
    and pth: "pth \<noteq> []" "''Total Exclusions'' \<notin> p_name ` set pth"
      "''Total Exclusions'' \<notin> e_type ` set pth"
    using threshold_frames_eq by blast
  let ?recs = "replicate 95 rA @ replicate 105 rB @ replicate 50 rC"
  let ?f = "\<lparr>records = ?recs, File_Scan = None\<rparr>"
  have ne: "records ?f \<noteq> []" by simp
  from exclusion_report_returns [OF pth(1) ne pth(2,3)]
  obtain process' rep where rep: "exclusion_report pth ?f = Inr (pth, process', rep)"
    by blast
  note pv = report_Inr(4) [OF rep]
  have "set (map Policy_Name ?recs) = {''A'', ''B'', ''C''}"
    using names by auto
  then have idx: "map Policy (pvt_process rep) = [''A'', ''B'', ''C'']"
    unfolding pv pivot_index using sorted_names by simp
  then obtain rowA rowB rowC where rows: "pvt_process rep = [rowA, rowB, rowC]"
    and pol: "Policy rowA = ''A''" "Policy rowB = ''B''" "Policy rowC = ''C''"
    by (auto simp: map_eq_Cons_conv)
  have tot: "Total_Exclusions row = length (filter (\<lambda>r. Policy_Name r = Policy row) ?recs)"
    if "row \<in> set (pvt_process rep)" for row
    using that pivot_totals unfolding pv by fastforce
  have "Total_Exclusions rowA = 95" "Total_Exclusions rowB = 105" "Total_Exclusions rowC = 50"
    using tot [of rowA] tot [of rowB] tot [of rowC] by (simp_all add: rows pol names)
  with rep rows pol show ?thesis
    unfolding fr by auto
qed

text \<open>
  C3: for every line of the process pivot, the policy is in the caution list iff its
  total is in [90,100], in the warning list iff its total exceeds 100, and in neither
  when the total is below 90.
\<close>

theorem threshold_classification:
  assumes "exclusion_report path process = Inr (path', process', rep)"
    and "row \<in> set (pvt_process rep)"
  shows "(Policy row \<in> fst ` set (caution_list rep)
            \<longleftrightarrow> 90 \<le> Total_Exclusions row \<and> Total_Exclusions row \<le> 100)
       \<and> (Policy row \<in> fst ` set (warning_list rep) \<longleftrightarrow> 100 < Total_Exclusions row)
       \<and> (Total_Exclusions row < 90
            \<longrightarrow> Policy row \<notin> fst ` set (caution_list rep)
              \<and> Policy row \<notin> fst ` set (warning_list rep))"
proof -
  let ?pvt = "pvt_process rep"
  have uniq: "r = row" if "r \<in> set ?pvt" and "Policy r = Policy row" for r
    using that assms(2) pivot_row_unique unfolding report_Inr(4) [OF assms(1)] by blast
  have c: "Policy row \<in> fst ` set (caution_list rep)
            \<longleftrightarrow> 90 \<le> Total_Exclusions row \<and> Total_Exclusions row \<le> 100"
    unfolding report_Inr(5) [OF assms(1)] caution_names using uniq assms(2) by blast
  have w: "Policy row \<in> fst ` set (warning_list rep) \<longleftrightarrow> 100 < Total_Exclusions row"
    unfolding report_Inr(6) [OF assms(1)] warning_names using uniq assms(2) by blast
  from c w show ?thesis by simp
qed

theorem threshold_classification_witness:
  "\<exists>path' process' rep rowA rowB rowC.
     exclusion_report (fst threshold_frames) (snd threshold_frames) = Inr (path', process', rep)
     \<and> pvt_process rep = [rowA, rowB, rowC]
     \<and> Policy rowA = ''A'' \<and> Total_Exclusions rowA = 95
     \<and> ''A'' \<in> fst ` set (caution_list rep) \<and> ''A'' \<notin> fst ` set (warning_list rep)
     \<and> Policy rowB = ''B'' \<and> Total_Exclusions rowB = 105
     \<and> ''B'' \<in> fst ` set (warning_list rep) \<and> ''B'' \<notin> fst ` set (caution_list rep)
     \<and> Policy rowC = ''C'' \<and> Total_Exclusions rowC = 50
     \<and> ''C'' \<notin> fst ` set (caution_list rep) \<and> ''C'' \<notin> fst ` set (warning_list rep)"
proof -
  from threshold_example obtain path' process' rep rowA rowB rowC where
    rep: "exclusion_report (fst threshold_frames) (snd threshold_frames) = Inr (path', process', rep)"
    and rows: "pvt_process rep = [rowA, rowB, rowC]"
    and a: "Policy rowA = ''A''" "Total_Exclusions rowA = 95"
    and b: "Policy rowB = ''B''" "Total_Exclusions rowB = 105"
    and c: "Policy rowC = ''C''" "Total_Exclusions rowC = 50"
    by blast
  have mem: "rowA \<in> set (pvt_process rep)" "rowB \<in> set (pvt_process rep)"
    "rowC \<in> set (pvt_process rep)"
    by (simp_all add: rows)
  from threshold_classification [OF rep mem(1)] a
  have ra: "''A'' \<in> fst ` set (caution_list rep)" "''A'' \<notin> fst ` set (warning_list rep)"
    by simp_all
  from threshold_classification [OF rep mem(2)] b
  have rb: "''B'' \<in> fst ` set (warning_list rep)" "''B'' \<notin> fst ` set (caution_list rep)"
    by simp_all
  from threshold_classification [OF rep mem(3)] c
  have rc: "''C'' \<notin> fst ` set (caution_list rep)" "''C'' \<notin> fst ` set (warning_list rep)"
    by simp_all
  from rep rows a b c ra rb rc show ?thesis by blast
qed

text \<open>
  C4: the \<open>File Scan\<close> column is true exactly at the records whose raw flag is 0, 1 or
  2, and a policy's File Scan count is the number of its records with such a flag.
\<close>

theorem file_scan_count:
  assumes "exclusion_report path process = Inr (path', process', rep)"
    and "row \<in> set (pvt_process rep)"
  shows "File_Scan process' = Some (map (\<lambda>r. Exclusion_Flag r \<in> {0, 1, 2}) (records process))
       \<and> sum_File_Scan row
           = length (filter (\<lambda>r. Policy_Name r = Policy row \<and> Exclusion_Flag r \<in> {0, 1, 2})
                       (records process))"
proof -
  have rng: "in_file_scan_range x \<longleftrightarrow> x \<in> {0, 1, 2}" for x
    by (auto simp: in_file_scan_range_def)
  from assms(2) obtain n where row: "row = (let grp = filter (\<lambda>r. Policy_Name (fst r) = n)
        (zip (records process) (map (\<lambda>r. in_file_scan_range (Exclusion_Flag r)) (records process))) in
              \<lparr>Policy = n,
               sum_File_Scan = np_sum (map snd grp),
               sum_File_Scan_Child = np_sum (map (File_Scan_Child \<circ> fst) grp),
               sum_System_Process_Protection = np_sum (map (System_Process_Protection \<circ> fst) grp),
               sum_System_Process_Protection_Child =
                 np_sum (map (System_Process_Protection_Child \<circ> fst) grp),
               sum_Malicious_Activity = np_sum (map (Malicious_Activity \<circ> fst) grp),
               sum_Malicious_Activity_Child = np_sum (map (Malicious_Activity_Child \<circ> fst) grp),
               Total_Exclusions = length grp\<rparr>)"
    unfolding report_Inr(4) [OF assms(1)] pivot_table_def by auto
  have "sum_File_Scan row
        = length (filter (\<lambda>r. Policy_Name r = Policy row \<and> in_file_scan_range (Exclusion_Flag r))
                    (records process))"
    by (simp add: row Let_def np_sum_group [where P = "\<lambda>r. Policy_Name r = n"])
  then show ?thesis
    by (simp add: report_Inr(2) [OF assms(1)] rng)
qed

theorem file_scan_count_witness:
  "exclusion_report (fst small_frames) (snd small_frames)
     = Inr (fst small_frames, (snd small_frames)\<lparr>File_Scan := Some [True, False, True]\<rparr>,
            small_report)
   \<and> hd (pvt_process small_report) \<in> set (pvt_process small_report)
   \<and> map Exclusion_Flag (records (snd small_frames)) = [1, 7, 2]
   \<and> Some [True, False, True]
       = Some (map (\<lambda>r. Exclusion_Flag r \<in> {0, 1, 2}) (records (snd small_frames)))
   \<and> sum_File_Scan (hd (pvt_process small_report)) = 1
   \<and> length (filter (\<lambda>r. Policy_Name r = ''A'' \<and> Exclusion_Flag r \<in> {0, 1, 2})
               (records (snd small_frames))) = 1"
proof -
  have mem: "hd (pvt_process small_report) \<in> set (pvt_process small_report)"
    by (simp add: small_report_def)
  have flags: "map Exclusion_Flag (records (snd small_frames)) = [1, 7, 2]"
    using small_frames_records(1) [THEN arg_cong, of "map snd"] by (simp add: o_def)
  from file_scan_count [OF small_report_eval mem] small_report_eval mem flags
  show ?thesis by (simp add: small_report_def)
qed

text \<open>
  C5: the path table has one line per policy name of the path frame; the last column
  is \<open>Total Exclusions\<close>, and on each line it equals the number of path records of
  that policy and the sum of the line's other cells. The pivot has one line per policy
  name of the process frame, whose \<open>Total Exclusions\<close> is the number of process
  records of that policy.
\<close>

theorem totals_match_records:
  assumes "exclusion_report path process = Inr (path', process', rep)"
  shows "map fst (body (path_exc rep)) = sort (remdups (map p_name path))
       \<and> last (columns (path_exc rep)) = ''Total Exclusions''
       \<and> (\<forall>line\<in>set (body (path_exc rep)).
            length (snd line) = length (columns (path_exc rep))
          \<and> last (snd line) = length (filter (\<lambda>r. p_name r = fst line) path)
          \<and> sum_list (butlast (snd line)) = last (snd line))
       \<and> map Policy (pvt_process rep) = sort (remdups (map Policy_Name (records process)))
       \<and> (\<forall>row\<in>set (pvt_process rep).
            Total_Exclusions row
              = length (filter (\<lambda>r. Policy_Name r = Policy row) (records process)))"
proof -
  note ps = report_Inr(3) [OF assms]
  let ?idx = "map p_name path" and ?cols = "map e_type path"
  have zp: "map fst (zip ?idx ?cols) = ?idx" "snd ` set (zip ?idx ?cols) \<subseteq> set (sort (remdups ?cols))"
    by (auto simp: map_fst_zip dest: set_zip_rightD)
  have rowsum: "sum_list (map (\<lambda>c. count_list (zip ?idx ?cols) (n, c)) (sort (remdups ?cols)))
                = count_list ?idx n" for n
    using sum_count_pairs [of "sort (remdups ?cols)" "zip ?idx ?cols" n] zp by simp
  have a: "map fst (body (path_exc rep)) = sort (remdups ?idx)"
    by (simp add: path_summary_body [OF ps] o_def)
  have b: "\<forall>line\<in>set (body (path_exc rep)).
            length (snd line) = length (columns (path_exc rep))
          \<and> last (snd line) = length (filter (\<lambda>r. p_name r = fst line) path)
          \<and> sum_list (butlast (snd line)) = last (snd line)"
    by (auto simp: path_summary_body [OF ps] path_summary_columns(2) [OF ps] rowsum
        count_list_map_filter)
  have c: "\<forall>row\<in>set (pvt_process rep).
            Total_Exclusions row
              = length (filter (\<lambda>r. Policy_Name r = Policy row) (records process))"
    unfolding report_Inr(4) [OF assms] using pivot_totals by blast
  show ?thesis
    using a b c path_summary_columns(1) [OF ps]
    by (simp add: report_Inr(4) [OF assms] pivot_index)
qed

theorem totals_match_records_witness:
  "exclusion_report (fst small_frames) (snd small_frames)
     = Inr (fst small_frames, (snd small_frames)\<lparr>File_Scan := Some [True, False, True]\<rparr>,
            small_report)
   \<and> map p_name (fst small_frames) = [''B'', ''A'', ''A'']
   \<and> map Policy_Name (records (snd small_frames)) = [''B'', ''A'', ''A'']
   \<and> body (path_exc small_report) = [(''A'', [1, 1, 2]), (''B'', [1, 0, 1])]
   \<and> length (filter (\<lambda>r. p_name r = ''A'') (fst small_frames)) = 2
   \<and> length (filter (\<lambda>r. p_name r = ''B'') (fst small_frames)) = 1
   \<and> map (\<lambda>row. (Policy row, Total_Exclusions row)) (pvt_process small_report)
       = [(''A'', 2), (''B'', 1)]
   \<and> length (filter (\<lambda>r. Policy_Name r = ''A'') (records (snd small_frames))) = 2
   \<and> length (filter (\<lambda>r. Policy_Name r = ''B'') (records (snd small_frames))) = 1"
proof -
  note t = totals_match_records [OF small_report_eval]
  have pn: "map p_name (fst small_frames) = [''B'', ''A'', ''A'']"
    using small_frames_records(2) [THEN arg_cong, of "map fst"] by (simp add: o_def)
  have qn: "map Policy_Name (records (snd small_frames)) = [''B'', ''A'', ''A'']"
    using small_frames_records(1) [THEN arg_cong, of "map fst"] by (simp add: o_def)
  have bd: "body (path_exc small_report) = [(''A'', [1, 1, 2]), (''B'', [1, 0, 1])]"
    by (simp add: small_report_def)
  have pv: "map (\<lambda>row. (Policy row, Total_Exclusions row)) (pvt_process small_report)
       = [(''A'', 2), (''B'', 1)]"
    by (simp add: small_report_def)
  from t have lines: "\<forall>line\<in>set (body (path_exc small_report)).
      last (snd line) = length (filter (\<lambda>r. p_name r = fst line) (fst small_frames))"
    by blast
  from t have rows: "\<forall>row\<in>set (pvt_process small_report).
      Total_Exclusions row
        = length (filter (\<lambda>r. Policy_Name r = Policy row) (records (snd small_frames)))"
    by blast
  from lines have l: "length (filter (\<lambda>r. p_name r = ''A'') (fst small_frames)) = 2"
    "length (filter (\<lambda>r. p_name r = ''B'') (fst small_frames)) = 1"
    by (simp_all add: bd)
  from rows have r: "length (filter (\<lambda>r. Policy_Name r = ''A'') (records (snd small_frames))) = 2"
    "length (filter (\<lambda>r. Policy_Name r = ''B'') (records (snd small_frames))) = 1"
    by (simp_all add: small_report_def)
  from small_report_eval pn qn bd pv l r show ?thesis by simp
qed

text \<open>
  C8: running the report again on the frames the first run leaves behind returns the
  same frames and the same tables.
\<close>

theorem report_idempotent:
  assumes "exclusion_report path process = Inr (path', process', rep)"
  shows "exclusion_report path' process' = Inr (path', process', rep)"
  using assms
  by (auto simp: exclusion_report_def Let_def split: sum.splits if_splits)

theorem report_idempotent_witness:
  "exclusion_report (fst small_frames) (snd small_frames)
     = Inr (fst small_frames, (snd small_frames)\<lparr>File_Scan := Some [True, False, True]\<rparr>,
            small_report)
   \<and> exclusion_report (fst small_frames)
        ((snd small_frames)\<lparr>File_Scan := Some [True, False, True]\<rparr>)
     = Inr (fst small_frames, (snd small_frames)\<lparr>File_Scan := Some [True, False, True]\<rparr>,
            small_report)"
  using report_idempotent [OF small_report_eval] small_report_eval by simp

text \<open>
  C9: no policy is in both the caution and the warning list.
\<close>

theorem advisories_disjoint:
  assumes "exclusion_report path process = Inr (path', process', rep)"
  shows "fst ` set (caution_list rep) \<inter> fst ` set (warning_list rep) = {}"
proof -
  have "False" if c: "n \<in> fst ` set (caution_list rep)" and w: "n \<in> fst ` set (warning_list rep)" for n
  proof -
    from c obtain r1 where r1: "r1 \<in> set (pvt_process rep)" "Policy r1 = n" "Total_Exclusions r1 \<le> 100"
      unfolding report_Inr(5) [OF assms] caution_names by blast
    from w obtain r2 where r2: "r2 \<in> set (pvt_process rep)" "Policy r2 = n" "100 < Total_Exclusions r2"
      unfolding report_Inr(6) [OF assms] warning_names by blast
    from r1 r2 have "r1 = r2"
      using pivot_row_unique unfolding report_Inr(4) [OF assms] by blast
    with r1 r2 show False by simp
  qed
  then show ?thesis by blast
qed

theorem advisories_disjoint_witness:
  "\<exists>path' process' rep.
     exclusion_report (fst threshold_frames) (snd threshold_frames) = Inr (path', process', rep)
     \<and> ''A'' \<in> fst ` set (caution_list rep) \<and> ''B'' \<in> fst ` set (warning_list rep)
     \<and> fst ` set (caution_list rep) \<inter> fst ` set (warning_list rep) = {}"
proof -
  from threshold_example obtain path' process' rep rowA rowB rowC where
    rep: "exclusion_report (fst threshold_frames) (snd threshold_frames) = Inr (path', process', rep)"
    and rows: "pvt_process rep = [rowA, rowB, rowC]"
    and a: "Policy rowA = ''A''" "Total_Exclusions rowA = 95"
    and b: "Policy rowB = ''B''" "Total_Exclusions rowB = 105"
    by blast
  have "''A'' \<in> fst ` set (caution_list rep)"
    unfolding report_Inr(5) [OF rep] caution_names using rows a by simp
  moreover have "''B'' \<in> fst ` set (warning_list rep)"
    unfolding report_Inr(6) [OF rep] warning_names using rows b by simp
  ultimately show ?thesis
    using rep advisories_disjoint [OF rep] by blast
qed

text \<open>
  C10: after the report returns, the caller's process frame holds the \<open>File Scan\<close>
  column (a frame that had none has changed), its rows are as before, and the path
  frame is unchanged.
\<close>

theorem report_writes_file_scan:
  assumes "exclusion_report path process = Inr (path', process', rep)"
  shows "File_Scan process'
           = Some (map (\<lambda>r. in_file_scan_range (Exclusion_Flag r)) (records process))
       \<and> records process' = records process
       \<and> path' = path
       \<and> (File_Scan process = None \<longrightarrow> process' \<noteq> process)"
proof -
  note p' = report_Inr(2) [OF assms]
  have col: "File_Scan process'
           = Some (map (\<lambda>r. in_file_scan_range (Exclusion_Flag r)) (records process))"
    by (simp add: p')
  have "process' \<noteq> process" if "File_Scan process = None"
  proof
    assume "process' = process"
    with col that show False by simp
  qed
  with col show ?thesis
    by (simp add: p' report_Inr(1) [OF assms])
qed

theorem report_writes_file_scan_witness:
  "exclusion_report (fst small_frames) (snd small_frames)
     = Inr (fst small_frames, (snd small_frames)\<lparr>File_Scan := Some [True, False, True]\<rparr>,
            small_report)
   \<and> File_Scan (snd small_frames) = None
   \<and> File_Scan ((snd small_frames)\<lparr>File_Scan := Some [True, False, True]\<rparr>)
       = Some (map (\<lambda>r. in_file_scan_range (Exclusion_Flag r)) (records (snd small_frames)))
   \<and> (snd small_frames)\<lparr>File_Scan := Some [True, False, True]\<rparr> \<noteq> snd small_frames"
proof -
  note w = report_writes_file_scan [OF small_report_eval]
  from w have col: "File_Scan ((snd small_frames)\<lparr>File_Scan := Some [True, False, True]\<rparr>)
       = Some (map (\<lambda>r. in_file_scan_range (Exclusion_Flag r)) (records (snd small_frames)))"
    by blast
  from w small_frames_records(3)
  have "(snd small_frames)\<lparr>File_Scan := Some [True, False, True]\<rparr> \<noteq> snd small_frames"
    by blast
  with col small_report_eval small_frames_records(3) show ?thesis
    by blast
qed

end
